theory Spec2Isabelle
  imports Main
begin

section \<open>Values, errors and the calls received by the visualization server\<close>

text \<open>
  The plugins of \<^verbatim>\<open>trainer/plugins/visdom_logger.py\<close> read a nested dictionary of
  statistics (\<^verbatim>\<open>self.trainer.stats\<close>) and forward what they find to a Visdom client.
  A Python value is modelled as either a dictionary with string keys (an association
  list, looked up with \<open>map_of\<close>) or any other value, kept abstract in \<open>'v\<close>: a number, a
  string, a list, an array.
\<close>

datatype 'v val = Atom 'v | Dict "(string \<times> 'v val) list"

text \<open>
  The exceptions of the module, under the names the specification gives them:
  \<^item> \<open>FieldNotFound k\<close> is the \<^verbatim>\<open>KeyError(k)\<close> of \<^verbatim>\<open>stat[f]\<close> on a dictionary without \<open>k\<close>;
  \<^item> \<open>TypeError\<close> is Python's own: \<^verbatim>\<open>stat[f]\<close> on a number, a call of a value that is no
    function, a call that leaves out a required argument;
  \<^item> \<open>IndexError\<close> is what a numpy array raises when it is indexed by a string;
  \<^item> \<open>AssertionError\<close> is what the client raises when it refuses the shape of its data;
  \<^item> \<open>UnsupportedPlotKind p\<close> is the \<^verbatim>\<open>ValueError\<close> of line 143;
  \<^item> \<open>InvalidArgument\<close> is the \<^verbatim>\<open>ValueError\<close> of lines 152 and 199;
  \<^item> \<open>NotImplemented\<close> is the \<^verbatim>\<open>NotImplementedError\<close> of line 35;
  \<^item> \<open>AttributeError n\<close> is Python's own, for a missing attribute \<open>n\<close>.
\<close>

datatype error =
    FieldNotFound string
  | TypeError
  | IndexError
  | AssertionError
  | UnsupportedPlotKind string
  | InvalidArgument
  | NotImplemented
  | AttributeError string

type_synonym 'v opts = "(string \<times> 'v val) list"

text \<open>The two chart operations a \<^verbatim>\<open>VisdomPlotLogger\<close> can be bound to.\<close>

datatype chart = scatter | line

text \<open>
  An attribute of a \<^verbatim>\<open>VisdomSaver\<close> object: the value of \<^verbatim>\<open>envs\<close>, the client handle,
  the stored interval, the trainer, one of the bound methods of the class, or any other
  object (told apart by a number).
\<close>

datatype attr =
    Envs "string list option"
  | Viz
  | Interval "(nat \<times> string) list"
  | Trainer
  | Method_save
  | Method_register
  | Obj nat

text \<open>
  A call on the Visdom client, with the arguments the module passes. \<^verbatim>\<open>np.array([args])\<close>
  is the one-row matrix \<open>[args]\<close> and \<^verbatim>\<open>np.array([x])\<close> the one-element vector \<open>[x]\<close>.
  \<open>Save (Some a)\<close> is \<^verbatim>\<open>viz.save(a)\<close>; \<open>Save None\<close> would be \<^verbatim>\<open>viz.save()\<close>, which the client
  never carries out (see \<open>client_save\<close> below).
\<close>

datatype 'v call =
    Chart chart "'v val list list" "string option" "string option" "'v opts"
  | UpdateTrace "'v val list" "'v val list" "string option" "string option" "'v opts"
  | Text "string list" "string option" "string option" "'v opts"
  | Plot string "'v val list" "string option" "string option" "'v opts"
  | Save "attr option"

text \<open>
  The client and the server behind it are not part of the module. The calls the client
  has carried out are kept in a list, oldest first; a call that Python or the client
  refuses with an exception is not among them. The window identifier a plotting call
  returns is given by a function of that history and of the call, a parameter of every
  operation that plots.
\<close>

type_synonym 'v server = "'v call list \<Rightarrow> 'v call \<Rightarrow> string"

text \<open>
  The client's \<^verbatim>\<open>scatter\<close> checks the shape of its data and fills its defaults into the
  options dictionary it is given, which is the logger's own \<^verbatim>\<open>self.opts\<close>, not a copy. Its
  answer to a call is a parameter: it raises, or it returns a window identifier, and either
  way it leaves the options dictionary in the state the answer carries.
\<close>

datatype 'v answer = Raises error "'v opts" | Returns string "'v opts"

type_synonym 'v scatter_client = "'v call list \<Rightarrow> 'v call \<Rightarrow> 'v answer"

text \<open>
  The client's \<^verbatim>\<open>save\<close> takes the environments as a required argument, as the call of
  line 82 passes them. Called without one, Python raises \<^verbatim>\<open>TypeError\<close> when it binds the
  arguments, and nothing is carried out.
\<close>

definition client_save ::
  "attr option \<Rightarrow> 's \<times> 'v call list \<Rightarrow> (error + unit) \<times> 's \<times> 'v call list" where
  "client_save arg s =
     (case arg of
        None \<Rightarrow> (Inl TypeError, s)
      | Some a \<Rightarrow> (Inr (), fst s, snd s @ [Save (Some a)]))"

fun is_save :: "'v call \<Rightarrow> bool" where
  "is_save (Save a) = True"
| "is_save c = False"

fun is_create :: "'v call \<Rightarrow> bool" where
  "is_create (Chart k X w e opts) = True"
| "is_create c = False"

section \<open>The loggers\<close>

text \<open>
  The fields of \<^verbatim>\<open>BaseVisdomLogger\<close>. \<^verbatim>\<open>None\<close> for the window or the environment is
  \<open>None\<close>. Modelled from the spec: \<^verbatim>\<open>Logger.__init__\<close> (\<^verbatim>\<open>trainer/plugins/logger.py\<close> is
  not among the sources) keeps the field paths, each an ordered sequence of string keys,
  and the firing interval. The attribute \<^verbatim>\<open>fields\<close> is \<open>field_paths\<close> here.
\<close>

record 'v base_logger =
  field_paths :: "string list list"
  interval :: "(nat \<times> string) list option"
  win :: "string option"
  env :: "string option"
  opts :: "'v opts"

record 'v plot_logger = "'v base_logger" +
  chart :: chart

text \<open>The attribute \<^verbatim>\<open>text\<close> of a \<^verbatim>\<open>VisdomTextLogger\<close> is \<open>text'\<close> here.\<close>

record 'v text_logger = "'v base_logger" +
  text' :: string
  update_type :: string

record 'v generic_logger = "'v base_logger" +
  plot_type :: string

subsection \<open>Resolving field paths\<close>

text \<open>
  \<^verbatim>\<open>stat[f]\<close>. What a value that is no dictionary raises when it is indexed by a string is
  that value's own affair (\<^verbatim>\<open>TypeError\<close> for a number, a string or a list, \<^verbatim>\<open>IndexError\<close> for a
  numpy array): it is the parameter \<open>sub\<close>.
\<close>

fun getitem :: "('v \<Rightarrow> error) \<Rightarrow> 'v val \<Rightarrow> string \<Rightarrow> error + 'v val" where
  "getitem sub (Dict kvs) f =
     (case map_of kvs f of None \<Rightarrow> Inl (FieldNotFound f) | Some s \<Rightarrow> Inr s)"
| "getitem sub (Atom v) f = Inl (sub v)"

text \<open>The inner loop of \<^verbatim>\<open>_log_all\<close>: \<^verbatim>\<open>for f in field: parent, stat = stat, stat[f]\<close>.\<close>

fun resolve :: "('v \<Rightarrow> error) \<Rightarrow> 'v val \<Rightarrow> string list \<Rightarrow> error + 'v val" where
  "resolve sub stat [] = Inr stat"
| "resolve sub stat (f # field) =
     (case getitem sub stat f of Inl e \<Rightarrow> Inl e | Inr s \<Rightarrow> resolve sub s field)"

text \<open>The outer loop: every field is resolved from the top and appended to \<^verbatim>\<open>results\<close>.\<close>

fun gather ::
  "('v \<Rightarrow> error) \<Rightarrow> 'v val \<Rightarrow> string list list \<Rightarrow> 'v val list \<Rightarrow> error + 'v val list" where
  "gather sub stats [] results = Inr results"
| "gather sub stats (field # rest) results =
     (case resolve sub stats field of
        Inl e \<Rightarrow> Inl e
      | Inr s \<Rightarrow> gather sub stats rest (results @ [s]))"

text \<open>
  \<^verbatim>\<open>BaseVisdomLogger._log_all\<close>: the gathered values are passed to the \<^verbatim>\<open>log\<close> of the
  object's class, here the parameter \<open>log\<close>. Nothing is logged when a field fails.
\<close>

definition log_all ::
  "('v \<Rightarrow> error) \<Rightarrow>
   ('v val list \<Rightarrow> ('v, 'a) base_logger_scheme \<times> 'v call list \<Rightarrow>
      (error + unit) \<times> ('v, 'a) base_logger_scheme \<times> 'v call list) \<Rightarrow>
   'v val \<Rightarrow> ('v, 'a) base_logger_scheme \<times> 'v call list \<Rightarrow>
   (error + unit) \<times> ('v, 'a) base_logger_scheme \<times> 'v call list" where
  "log_all sub log stats s =
     (case gather sub stats (field_paths (fst s)) [] of
        Inl e \<Rightarrow> (Inl e, s)
      | Inr results \<Rightarrow> log results s)"

text \<open>
  \<^verbatim>\<open>BaseVisdomLogger.__init__\<close>. The constructors of the subclasses call it first; below
  they are written with the whole record, these five fields as here and their own after.
\<close>

definition BaseVisdomLogger_init ::
  "string list list \<Rightarrow> (nat \<times> string) list option \<Rightarrow> string option \<Rightarrow> string option \<Rightarrow>
   'v opts \<Rightarrow> 'v base_logger" where
  "BaseVisdomLogger_init flds ivl w e os =
     \<lparr>field_paths = flds, interval = ivl, win = w, env = e, opts = os\<rparr>"

text \<open>\<^verbatim>\<open>BaseVisdomLogger.log\<close>: abstract.\<close>

definition BaseVisdomLogger_log ::
  "'v val list \<Rightarrow> 's \<times> 'v call list \<Rightarrow> (error + unit) \<times> 's \<times> 'v call list" where
  "BaseVisdomLogger_log args s = (Inl NotImplemented, s)"

text \<open>
  \<^verbatim>\<open>_viz_prototype\<close>: the function it returns calls \<open>vis_fn\<close> with the logger's window,
  environment and options and stores the window the call returns.
\<close>

definition viz_prototype ::
  "'v server \<Rightarrow> ('x \<Rightarrow> string option \<Rightarrow> string option \<Rightarrow> 'v opts \<Rightarrow> 'v call) \<Rightarrow> 'x \<Rightarrow>
   ('v, 'a) base_logger_scheme \<times> 'v call list \<Rightarrow>
   (error + unit) \<times> ('v, 'a) base_logger_scheme \<times> 'v call list" where
  "viz_prototype srv vis_fn args s =
     (case s of (self, tr) \<Rightarrow>
        let c = vis_fn args (win self) (env self) (opts self)
        in (Inr (), self\<lparr>win := Some (srv tr c)\<rparr>, tr @ [c]))"

text \<open>
  \<^verbatim>\<open>BaseVisdomLogger.epoch\<close>: the hook of the superclass, then \<^verbatim>\<open>self.viz.save()\<close>, a call
  of the client's \<^verbatim>\<open>save\<close> with no argument. An exception of the superclass's hook leaves
  the method before the save.
\<close>

definition BaseVisdomLogger_epoch ::
  "(nat \<Rightarrow> 's \<times> 'v call list \<Rightarrow> (error + unit) \<times> 's \<times> 'v call list) \<Rightarrow>
   nat \<Rightarrow> 's \<times> 'v call list \<Rightarrow> (error + unit) \<times> 's \<times> 'v call list" where
  "BaseVisdomLogger_epoch super_epoch epoch_idx s =
     (case super_epoch epoch_idx s of
        (Inl e, s') \<Rightarrow> (Inl e, s')
      | (Inr u, s') \<Rightarrow> client_save None s')"

text \<open>
  Modelled from the spec: \<^verbatim>\<open>Logger.epoch\<close>, the hook of the superclass, is not among the
  sources. By the spec the per-hook entry point resolves all configured field paths and
  invokes \<^verbatim>\<open>log\<close> with the resolved values, which is \<^verbatim>\<open>_log_all\<close>.
\<close>

definition Logger_epoch ::
  "('v \<Rightarrow> error) \<Rightarrow>
   ('v val list \<Rightarrow> ('v, 'a) base_logger_scheme \<times> 'v call list \<Rightarrow>
      (error + unit) \<times> ('v, 'a) base_logger_scheme \<times> 'v call list) \<Rightarrow>
   'v val \<Rightarrow> nat \<Rightarrow> ('v, 'a) base_logger_scheme \<times> 'v call list \<Rightarrow>
   (error + unit) \<times> ('v, 'a) base_logger_scheme \<times> 'v call list" where
  "Logger_epoch sub log stats epoch_idx s = log_all sub log stats s"

subsection \<open>VisdomLogger\<close>

text \<open>
  \<^verbatim>\<open>getattr(self.viz, plot_type)\<close> fails when the client has no such attribute; which
  names it has is the parameter \<open>supported\<close>. The hooks call \<^verbatim>\<open>log\<close> with positional
  values only, so keyword arguments are left out.
\<close>

definition VisdomLogger_init ::
  "(string \<Rightarrow> bool) \<Rightarrow> string \<Rightarrow> string list list \<Rightarrow> (nat \<times> string) list option \<Rightarrow>
   string option \<Rightarrow> string option \<Rightarrow> 'v opts \<Rightarrow> 'v call list \<Rightarrow>
   (error + 'v generic_logger) \<times> 'v call list" where
  "VisdomLogger_init supported ptype flds ivl w e os tr =
     (if supported ptype
      then (Inr \<lparr>field_paths = flds, interval = ivl, win = w, env = e, opts = os,
                 plot_type = ptype\<rparr>, tr)
      else (Inl (AttributeError ptype), tr))"

definition VisdomLogger_log ::
  "'v server \<Rightarrow> 'v val list \<Rightarrow> 'v generic_logger \<times> 'v call list \<Rightarrow>
   (error + unit) \<times> 'v generic_logger \<times> 'v call list" where
  "VisdomLogger_log srv args s = viz_prototype srv (Plot (plot_type (fst s))) args s"

subsection \<open>VisdomPlotLogger\<close>

definition valid_plot_types :: "(string \<times> chart) list" where
  "valid_plot_types = [(''scatter'', scatter), (''line'', line)]"

text \<open>
  \<^verbatim>\<open>VisdomPlotLogger.__init__\<close>. The requested kind is looked at only under
  \<^verbatim>\<open>'plot_type' in self.opts\<close>; the lookup \<^verbatim>\<open>valid_plot_types[plot_type]\<close> after the
  membership test is the \<open>Some\<close> case of \<open>map_of\<close>.
\<close>

definition VisdomPlotLogger_init ::
  "string \<Rightarrow> string list list \<Rightarrow> (nat \<times> string) list option \<Rightarrow> string option \<Rightarrow>
   string option \<Rightarrow> 'v opts \<Rightarrow> 'v call list \<Rightarrow> (error + 'v plot_logger) \<times> 'v call list" where
  "VisdomPlotLogger_init ptype flds ivl w e os tr =
     (if ''plot_type'' \<in> set (map fst os) then
        (case map_of valid_plot_types ptype of
           None \<Rightarrow> (Inl (UnsupportedPlotKind ptype), tr)
         | Some c \<Rightarrow>
             (Inr \<lparr>field_paths = flds, interval = ivl, win = w, env = e, opts = os,
                   chart = c\<rparr>, tr))
      else
        (Inr \<lparr>field_paths = flds, interval = ivl, win = w, env = e, opts = os,
              chart = scatter\<rparr>, tr))"

text \<open>
  \<^verbatim>\<open>VisdomPlotLogger.log\<close>. With a window stored, \<^verbatim>\<open>x, y = args\<close> after the test of
  \<^verbatim>\<open>len(args)\<close>, and the value \<^verbatim>\<open>updateTrace\<close> returns is dropped. Without one, the chart
  operation is called with \<^verbatim>\<open>X\<close>, the window, the environment and the options, and nothing
  else (lines 162-166):
  \<^item> the client's \<^verbatim>\<open>line\<close> takes the values as its required first argument \<^verbatim>\<open>Y\<close> (its \<^verbatim>\<open>X\<close>
    is optional), so for a line logger Python raises \<^verbatim>\<open>TypeError\<close> when it binds the
    arguments: nothing is carried out and no window is stored;
  \<^item> the client's \<^verbatim>\<open>scatter\<close> answers as the parameter \<open>srv\<close> says: when it raises, no
    window is stored; when it returns, its window is stored; either way \<^verbatim>\<open>self.opts\<close> is
    the dictionary as the client left it.
\<close>

definition VisdomPlotLogger_log ::
  "'v scatter_client \<Rightarrow> 'v val list \<Rightarrow> 'v plot_logger \<times> 'v call list \<Rightarrow>
   (error + unit) \<times> 'v plot_logger \<times> 'v call list" where
  "VisdomPlotLogger_log srv args s =
     (case s of (self, tr) \<Rightarrow>
        if win self \<noteq> None then
          (case args of
             [x, y] \<Rightarrow>
               (Inr (), self, tr @ [UpdateTrace [x] [y] (win self) (env self) (opts self)])
           | _ \<Rightarrow> (Inl InvalidArgument, self, tr))
        else
          (case chart self of
             line \<Rightarrow> (Inl TypeError, self, tr)
           | scatter \<Rightarrow>
               (let c = Chart scatter [args] (win self) (env self) (opts self)
                in case srv tr c of
                     Raises e os \<Rightarrow> (Inl e, self\<lparr>opts := os\<rparr>, tr)
                   | Returns w os \<Rightarrow> (Inr (), self\<lparr>win := Some w, opts := os\<rparr>, tr @ [c]))))"

text \<open>
  Successive \<^verbatim>\<open>log\<close> calls on one logger, with what each of them raised or returned. An
  exception goes to the caller and the object stays as the failed call left it.
\<close>

fun log_seq ::
  "'v scatter_client \<Rightarrow> 'v val list list \<Rightarrow> 'v plot_logger \<times> 'v call list \<Rightarrow>
   (error + unit) list \<times> 'v plot_logger \<times> 'v call list" where
  "log_seq srv [] s = ([], s)"
| "log_seq srv (args # rest) s =
     (case VisdomPlotLogger_log srv args s of
        (r, s') \<Rightarrow> (case log_seq srv rest s' of (rs, s'') \<Rightarrow> (r # rs, s'')))"

subsection \<open>VisdomTextLogger\<close>

definition valid_update_types :: "string list" where
  "valid_update_types = [''REPLACE'', ''APPEND'']"

text \<open>\<^verbatim>\<open>sep.join(xs)\<close>.\<close>

fun join :: "string \<Rightarrow> string list \<Rightarrow> string" where
  "join sep [] = []"
| "join sep [x] = x"
| "join sep (x # xs) = x @ sep @ join sep xs"

text \<open>
  \<^verbatim>\<open>VisdomTextLogger.__init__\<close>: the buffer starts empty, the update type is checked
  against the list, and no call goes to the client.
\<close>

definition VisdomTextLogger_init ::
  "string list list \<Rightarrow> (nat \<times> string) list option \<Rightarrow> string option \<Rightarrow> string option \<Rightarrow>
   'v opts \<Rightarrow> string \<Rightarrow> 'v call list \<Rightarrow> (error + 'v text_logger) \<times> 'v call list" where
  "VisdomTextLogger_init flds ivl w e os utype tr =
     (if utype \<notin> set valid_update_types then (Inl InvalidArgument, tr)
      else
        (Inr \<lparr>field_paths = flds, interval = ivl, win = w, env = e, opts = os,
              text' = [], update_type = utype\<rparr>, tr))"

text \<open>\<^verbatim>\<open>VisdomTextLogger.log\<close>; a string is true when it is not empty.\<close>

definition VisdomTextLogger_log ::
  "'v server \<Rightarrow> string \<Rightarrow> 'v text_logger \<times> 'v call list \<Rightarrow>
   (error + unit) \<times> 'v text_logger \<times> 'v call list" where
  "VisdomTextLogger_log srv msg s =
     (case s of (self, tr) \<Rightarrow>
        let self' =
          (if update_type self = ''APPEND'' \<and> text' self \<noteq> []
           then self\<lparr>text' := join ''<br>'' [text' self, msg]\<rparr>
           else self\<lparr>text' := msg\<rparr>)
        in viz_prototype srv Text [text' self'] (self', tr))"

section \<open>VisdomSaver\<close>

text \<open>
  A saver is its instance attributes, the latest assignment first. \<^verbatim>\<open>getattr\<close> looks
  among them and then among the methods of the class.
\<close>

type_synonym saver = "(string \<times> attr) list"

definition setattr :: "saver \<Rightarrow> string \<Rightarrow> attr \<Rightarrow> saver" where
  "setattr self n a = (n, a) # self"

definition getattr :: "saver \<Rightarrow> string \<Rightarrow> attr option" where
  "getattr self n =
     (case map_of self n of
        Some a \<Rightarrow> Some a
      | None \<Rightarrow> map_of [(''register'', Method_register), (''save'', Method_save)] n)"

text \<open>The loop of \<^verbatim>\<open>VisdomSaver.__init__\<close>: \<^verbatim>\<open>setattr(self, name, self.save)\<close>.\<close>

fun register_hooks :: "(nat \<times> string) list \<Rightarrow> saver \<Rightarrow> error + saver" where
  "register_hooks [] self = Inr self"
| "register_hooks ((k, name) # rest) self =
     (case getattr self ''save'' of
        None \<Rightarrow> Inl (AttributeError ''save'')
      | Some m \<Rightarrow> register_hooks rest (setattr self name m))"

text \<open>
  \<^verbatim>\<open>VisdomSaver.__init__\<close>. \<^verbatim>\<open>Plugin.__init__\<close> is not among the sources: the attributes
  it leaves on the object are the parameter \<open>plugin\<close>. The saver has a client of its own,
  and making it is no call on it.
\<close>

definition VisdomSaver_init ::
  "saver \<Rightarrow> string list option \<Rightarrow> (nat \<times> string) list \<Rightarrow> 'v call list \<Rightarrow>
   (error + saver) \<times> 'v call list" where
  "VisdomSaver_init plugin envs ivl tr =
     (register_hooks ivl (setattr (setattr plugin ''envs'' (Envs envs)) ''viz'' Viz), tr)"

definition VisdomSaver_register :: "attr \<Rightarrow> saver \<Rightarrow> saver" where
  "VisdomSaver_register trainer self = setattr self ''trainer'' trainer"

text \<open>
  \<^verbatim>\<open>VisdomSaver.save\<close>: \<^verbatim>\<open>self.viz.save(self.envs)\<close>, whatever the arguments of the hook.
\<close>

definition VisdomSaver_save ::
  "saver \<times> 'v call list \<Rightarrow> (error + unit) \<times> saver \<times> 'v call list" where
  "VisdomSaver_save s =
     (case s of (self, tr) \<Rightarrow>
        (case getattr self ''viz'' of
           None \<Rightarrow> (Inl (AttributeError ''viz''), s)
         | Some Viz \<Rightarrow>
             (case getattr self ''envs'' of
                None \<Rightarrow> (Inl (AttributeError ''envs''), s)
              | Some a \<Rightarrow> (Inr (), self, tr @ [Save (Some a)]))
         | Some other \<Rightarrow> (Inl (AttributeError ''save''), s)))"

text \<open>
  Modelled from the spec: the host training loop is not among the sources. It invokes a
  hook on a plugin by the hook's name, \<^verbatim>\<open>getattr(plugin, name)(*args)\<close>.
\<close>

definition call_hook ::
  "string \<Rightarrow> attr list \<Rightarrow> saver \<times> 'v call list \<Rightarrow> (error + unit) \<times> saver \<times> 'v call list" where
  "call_hook name args s =
     (case getattr (fst s) name of
        None \<Rightarrow> (Inl (AttributeError name), s)
      | Some Method_save \<Rightarrow> VisdomSaver_save s
      | Some Method_register \<Rightarrow>
          (case args of
             [trainer] \<Rightarrow> (Inr (), VisdomSaver_register trainer (fst s), snd s)
           | _ \<Rightarrow> (Inl TypeError, s))
      | Some other \<Rightarrow> (Inl TypeError, s))"

section \<open>What the specification says of a field path\<close>

text \<open>
  In the words of the specification, not of the code: \<open>stored_at stats path v\<close> says that
  every key along \<open>path\<close> is present and \<open>v\<close> is the value stored there;
  \<open>key_absent stats path k\<close> says that the keys of \<open>path\<close> are present up to \<open>k\<close>, which
  the dictionary reached does not have; \<open>runs_into stats path a\<close> says that the keys of
  \<open>path\<close> are present up to a value \<open>a\<close> that is no dictionary, with keys of the path still
  to look up. Every path is in one of the three cases.
\<close>

inductive stored_at :: "'v val \<Rightarrow> string list \<Rightarrow> 'v val \<Rightarrow> bool" where
  here: "stored_at v [] v"
| below: "map_of kvs k = Some v \<Longrightarrow> stored_at v ks r \<Longrightarrow> stored_at (Dict kvs) (k # ks) r"

inductive key_absent :: "'v val \<Rightarrow> string list \<Rightarrow> string \<Rightarrow> bool" where
  missing: "map_of kvs k = None \<Longrightarrow> key_absent (Dict kvs) (k # ks) k"
| deeper: "map_of kvs k = Some v \<Longrightarrow> key_absent v ks a \<Longrightarrow> key_absent (Dict kvs) (k # ks) a"

code_pred stored_at .

inductive runs_into :: "'v val \<Rightarrow> string list \<Rightarrow> 'v \<Rightarrow> bool" where
  blocked: "runs_into (Atom a) (k # ks) a"
| further: "map_of kvs k = Some v \<Longrightarrow> runs_into v ks a \<Longrightarrow> runs_into (Dict kvs) (k # ks) a"

code_pred key_absent .

code_pred runs_into .

section \<open>Example values\<close>

text \<open>
  A server that names every window \<open>window_1\<close>; a scatter client that refuses data of
  other than two or three columns and otherwise adds a default to the options and returns
  that window; numbers, which raise \<open>TypeError\<close> when indexed; the statistics of a progress
  monitor, a plot logger of two of its fields and a text logger, for the instances below.
\<close>

abbreviation srv_ex :: "nat server" where
  "srv_ex \<equiv> (\<lambda>tr c. ''window_1'')"

abbreviation client_ex :: "nat scatter_client" where
  "client_ex \<equiv> (\<lambda>tr c.
     case c of
       Chart k [row] w e os \<Rightarrow>
         if length row = 2 \<or> length row = 3
         then Returns ''window_1'' (os @ [(''markersize'', Atom 10)])
         else Raises AssertionError os
     | _ \<Rightarrow> Raises TypeError [])"

abbreviation sub_ex :: "nat \<Rightarrow> error" where
  "sub_ex \<equiv> (\<lambda>n. TypeError)"

abbreviation stats_ex :: "nat val" where
  "stats_ex \<equiv> Dict [(''progress'', Dict [(''samples_used'', Atom 128), (''percent'', Atom 40)])]"

abbreviation plot_ex :: "nat plot_logger" where
  "plot_ex \<equiv> \<lparr>field_paths = [[''progress'', ''samples_used''], [''progress'', ''percent'']],
     interval = Some [(2, ''iteration'')], win = None, env = None, opts = [], chart = scatter\<rparr>"

abbreviation text_ex :: "string \<Rightarrow> nat text_logger" where
  "text_ex utype \<equiv> \<lparr>field_paths = [[''progress'']], interval = Some [(2, ''iteration'')],
     win = None, env = None, opts = [], text' = [], update_type = utype\<rparr>"

section \<open>Field paths\<close>

lemma resolve_stored: "stored_at stats path v \<Longrightarrow> resolve sub stats path = Inr v"
  by (induction rule: stored_at.induct) simp_all

lemma resolve_absent:
  "key_absent stats path k \<Longrightarrow> resolve sub stats path = Inl (FieldNotFound k)"
  by (induction rule: key_absent.induct) simp_all

lemma resolve_blocked: "runs_into stats path a \<Longrightarrow> resolve sub stats path = Inl (sub a)"
  by (induction rule: runs_into.induct) simp_all

lemma path_cases:
  "(\<exists>v. stored_at stats path v) \<or> (\<exists>k. key_absent stats path k) \<or> (\<exists>a. runs_into stats path a)"
proof (induction path arbitrary: stats)
  case Nil
  show ?case by (blast intro: stored_at.here)
next
  case (Cons k ks)
  show ?case
  proof (cases stats)
    case (Atom a)
    then show ?thesis by (blast intro: runs_into.blocked)
  next
    case (Dict kvs)
    show ?thesis
    proof (cases "map_of kvs k")
      case None
      with Dict show ?thesis by (blast intro: key_absent.missing)
    next
      case (Some v)
      from Cons.IH [of v] Dict Some show ?thesis
        by (blast intro: stored_at.below key_absent.deeper runs_into.further)
    qed
  qed
qed

lemma gather_stored:
  "list_all2 (stored_at stats) flds vs \<Longrightarrow> gather sub stats flds acc = Inr (acc @ vs)"
proof (induction flds vs arbitrary: acc rule: list_all2_induct)
  case Nil
  show ?case by simp
next
  case (Cons p ps v vs)
  from Cons.hyps(1) have "resolve sub stats p = Inr v" by (rule resolve_stored)
  with Cons.IH [of "acc @ [v]"] show ?case by simp
qed

lemma gather_fails:
  "list_all2 (stored_at stats) before vs \<Longrightarrow> resolve sub stats p = Inl e \<Longrightarrow>
   gather sub stats (before @ p # rest) acc = Inl e"
proof (induction before vs arbitrary: acc rule: list_all2_induct)
  case Nil
  then show ?case by simp
next
  case (Cons q qs v vs)
  from Cons.hyps(1) have "resolve sub stats q = Inr v" by (rule resolve_stored)
  with Cons.IH [OF Cons.prems] show ?case by simp
qed

text \<open>
  Claim C5, amended. The inner loop of \<^verbatim>\<open>_log_all\<close> yields the value stored at a path
  whose keys are all present; it fails with \<open>FieldNotFound\<close> (\<^verbatim>\<open>KeyError\<close>) at the first key
  that the dictionary reached does not have; and when the path runs into a value that is no
  dictionary while keys are still to look up, it fails with the error that value raises
  when it is indexed by a string (\<^verbatim>\<open>TypeError\<close> for a number), which is not
  \<open>FieldNotFound\<close>. Every path is in one of the three cases. So \<^verbatim>\<open>_log_all\<close> passes to
  \<^verbatim>\<open>log\<close> exactly the values stored at the configured paths, in their order, and fails,
  logging nothing, at the first configured path that does not resolve, with the error of
  that path.
\<close>

theorem log_all_field_paths:
  "(stored_at stats path v \<longrightarrow> resolve sub stats path = Inr v) \<and>
   (key_absent stats path k \<longrightarrow> resolve sub stats path = Inl (FieldNotFound k)) \<and>
   (runs_into stats path a \<longrightarrow> resolve sub stats path = Inl (sub a)) \<and>
   ((\<exists>v'. stored_at stats path v') \<or> (\<exists>k'. key_absent stats path k') \<or>
    (\<exists>a'. runs_into stats path a')) \<and>
   (list_all2 (stored_at stats) (field_paths (fst s)) vs \<longrightarrow>
      log_all sub log stats s = log vs s) \<and>
   (field_paths (fst s) = before @ path # rest \<and> list_all2 (stored_at stats) before vs \<and>
      key_absent stats path k \<longrightarrow> log_all sub log stats s = (Inl (FieldNotFound k), s)) \<and>
   (field_paths (fst s) = before @ path # rest \<and> list_all2 (stored_at stats) before vs \<and>
      runs_into stats path a \<longrightarrow> log_all sub log stats s = (Inl (sub a), s))"
proof (intro conjI impI)
  show "(\<exists>v'. stored_at stats path v') \<or> (\<exists>k'. key_absent stats path k') \<or>
    (\<exists>a'. runs_into stats path a')"
    by (rule path_cases)
qed (auto simp: log_all_def resolve_stored resolve_absent resolve_blocked gather_stored
      gather_fails)

theorem log_all_field_paths_witness:
  "stored_at stats_ex [''progress'', ''percent''] (Atom 40) \<and>
   resolve sub_ex stats_ex [''progress'', ''percent''] = Inr (Atom 40) \<and>
   key_absent stats_ex [''progress'', ''loss''] ''loss'' \<and>
   resolve sub_ex stats_ex [''progress'', ''loss''] = Inl (FieldNotFound ''loss'') \<and>
   runs_into stats_ex [''progress'', ''percent'', ''x''] 40 \<and>
   resolve sub_ex stats_ex [''progress'', ''percent'', ''x''] = Inl TypeError \<and>
   list_all2 (stored_at stats_ex) (field_paths plot_ex) [Atom 128, Atom 40] \<and>
   log_all sub_ex (VisdomPlotLogger_log client_ex) stats_ex (plot_ex, []) =
     VisdomPlotLogger_log client_ex [Atom 128, Atom 40] (plot_ex, []) \<and>
   log_all sub_ex (VisdomPlotLogger_log client_ex) stats_ex
       (plot_ex\<lparr>field_paths := [[''progress'', ''percent''], [''progress'', ''loss'']]\<rparr>, []) =
     (Inl (FieldNotFound ''loss''),
      plot_ex\<lparr>field_paths := [[''progress'', ''percent''], [''progress'', ''loss'']]\<rparr>, []) \<and>
   log_all sub_ex (VisdomPlotLogger_log client_ex) stats_ex
       (plot_ex\<lparr>field_paths := [[''progress'', ''percent''], [''progress'', ''percent'', ''x'']]\<rparr>,
        []) =
     (Inl TypeError,
      plot_ex\<lparr>field_paths := [[''progress'', ''percent''], [''progress'', ''percent'', ''x'']]\<rparr>,
      [])"
proof -
  let ?inner = "Dict [(''samples_used'', Atom 128), (''percent'', Atom (40::nat))]"
  have st: "stored_at stats_ex [''progress'', ''percent''] (Atom 40)"
    by (rule stored_at.below [where v = ?inner], simp,
        rule stored_at.below [where v = "Atom 40"], simp, rule stored_at.here)
  have st2: "stored_at stats_ex [''progress'', ''samples_used''] (Atom 128)"
    by (rule stored_at.below [where v = ?inner], simp,
        rule stored_at.below [where v = "Atom 128"], simp, rule stored_at.here)
  have ab: "key_absent stats_ex [''progress'', ''loss''] ''loss''"
    by (rule key_absent.deeper [where v = ?inner], simp, rule key_absent.missing, simp)
  have bl: "runs_into stats_ex [''progress'', ''percent'', ''x''] 40"
    by (rule runs_into.further [where v = ?inner], simp,
        rule runs_into.further [where v = "Atom 40"], simp, rule runs_into.blocked)
  have all: "list_all2 (stored_at stats_ex) (field_paths plot_ex) [Atom 128, Atom 40]"
    using st st2 by simp
  have one: "list_all2 (stored_at stats_ex) [[''progress'', ''percent'']] [Atom 40]"
    using st by simp
  note a = log_all_field_paths [where stats = stats_ex and path = "[''progress'', ''percent'']"
      and v = "Atom 40" and k = "''loss''" and s = "(plot_ex, [])" and vs = "[Atom 128, Atom 40]"
      and log = "VisdomPlotLogger_log client_ex" and sub = sub_ex and a = 40
      and before = "[]" and rest = "[]"]
  note b = log_all_field_paths [where stats = stats_ex and path = "[''progress'', ''loss'']"
      and v = "Atom 40" and k = "''loss''"
      and s = "(plot_ex\<lparr>field_paths := [[''progress'', ''percent''], [''progress'', ''loss'']]\<rparr>, [])"
      and vs = "[Atom 40]"
      and log = "VisdomPlotLogger_log client_ex" and sub = sub_ex and a = 40
      and before = "[[''progress'', ''percent'']]" and rest = "[]"]
  note c = log_all_field_paths [where stats = stats_ex
      and path = "[''progress'', ''percent'', ''x'']" and v = "Atom 40" and k = "''loss''"
      and s = "(plot_ex\<lparr>field_paths :=
                  [[''progress'', ''percent''], [''progress'', ''percent'', ''x'']]\<rparr>, [])"
      and vs = "[Atom 40]"
      and log = "VisdomPlotLogger_log client_ex" and sub = sub_ex and a = 40
      and before = "[[''progress'', ''percent'']]" and rest = "[]"]
  from a st all have r1: "resolve sub_ex stats_ex [''progress'', ''percent''] = Inr (Atom 40)"
    and r3: "log_all sub_ex (VisdomPlotLogger_log client_ex) stats_ex (plot_ex, []) =
     VisdomPlotLogger_log client_ex [Atom 128, Atom 40] (plot_ex, [])"
    by simp_all
  from b ab one
  have r2: "resolve sub_ex stats_ex [''progress'', ''loss''] = Inl (FieldNotFound ''loss'')"
    and r4: "log_all sub_ex (VisdomPlotLogger_log client_ex) stats_ex
       (plot_ex\<lparr>field_paths := [[''progress'', ''percent''], [''progress'', ''loss'']]\<rparr>, []) =
     (Inl (FieldNotFound ''loss''),
      plot_ex\<lparr>field_paths := [[''progress'', ''percent''], [''progress'', ''loss'']]\<rparr>, [])"
    by simp_all
  from c bl one
  have r5: "resolve sub_ex stats_ex [''progress'', ''percent'', ''x''] = Inl TypeError"
    and r6: "log_all sub_ex (VisdomPlotLogger_log client_ex) stats_ex
       (plot_ex\<lparr>field_paths := [[''progress'', ''percent''], [''progress'', ''percent'', ''x'']]\<rparr>,
        []) =
     (Inl TypeError,
      plot_ex\<lparr>field_paths := [[''progress'', ''percent''], [''progress'', ''percent'', ''x'']]\<rparr>,
      [])"
    by simp_all
  from st ab bl all r1 r2 r3 r4 r5 r6 show ?thesis by (intro conjI)
qed

text \<open>
  Claim C5 as stated fails: in the statistics \<^verbatim>\<open>{'progress': {'samples_used': 128,
  'percent': 40}}\<close> the path \<^verbatim>\<open>progress.percent.x\<close> has a key that is not present, yet the
  lookup \<^verbatim>\<open>40['x']\<close> of line 57 raises \<^verbatim>\<open>TypeError\<close>, not \<open>FieldNotFound\<close>.
\<close>

theorem log_all_blocked_path_counterexample:
  "resolve sub_ex stats_ex [''progress'', ''percent'', ''x''] = Inl TypeError \<and>
   resolve sub_ex stats_ex [''progress'', ''percent'', ''x''] \<noteq> Inl (FieldNotFound ''x'') \<and>
   log_all sub_ex (VisdomPlotLogger_log client_ex) stats_ex
       (plot_ex\<lparr>field_paths := [[''progress'', ''percent'', ''x'']]\<rparr>, []) =
     (Inl TypeError, plot_ex\<lparr>field_paths := [[''progress'', ''percent'', ''x'']]\<rparr>, [])"
  by (simp add: log_all_def)

section \<open>The plot logger\<close>

text \<open>
  Claim C1. With the key \<^verbatim>\<open>plot_type\<close> among the options, the chart operation is the one
  the requested kind names, and a kind that is neither \<^verbatim>\<open>scatter\<close> nor \<^verbatim>\<open>line\<close> fails with
  \<open>UnsupportedPlotKind\<close>; without the key the chart operation is scatter whatever kind was
  requested. The constructor issues no call.
\<close>

theorem plot_kind_selection:
  "(''plot_type'' \<in> fst ` set os \<longrightarrow>
      (ptype = ''scatter'' \<longrightarrow>
         VisdomPlotLogger_init ptype flds ivl w e os tr =
           (Inr \<lparr>field_paths = flds, interval = ivl, win = w, env = e, opts = os,
                 chart = scatter\<rparr>, tr)) \<and>
      (ptype = ''line'' \<longrightarrow>
         VisdomPlotLogger_init ptype flds ivl w e os tr =
           (Inr \<lparr>field_paths = flds, interval = ivl, win = w, env = e, opts = os,
                 chart = line\<rparr>, tr)) \<and>
      (ptype \<noteq> ''scatter'' \<and> ptype \<noteq> ''line'' \<longrightarrow>
         VisdomPlotLogger_init ptype flds ivl w e os tr = (Inl (UnsupportedPlotKind ptype), tr))) \<and>
   (''plot_type'' \<notin> fst ` set os \<longrightarrow>
      VisdomPlotLogger_init ptype flds ivl w e os tr =
        (Inr \<lparr>field_paths = flds, interval = ivl, win = w, env = e, opts = os,
              chart = scatter\<rparr>, tr))"
  by (simp add: VisdomPlotLogger_init_def valid_plot_types_def)

theorem plot_kind_selection_witness:
  "''plot_type'' \<in> fst ` set [(''plot_type'', Atom (1::nat))] \<and>
   VisdomPlotLogger_init ''scatter'' [[''loss'']] None None None [(''plot_type'', Atom (1::nat))] [] =
     (Inr \<lparr>field_paths = [[''loss'']], interval = None, win = None, env = None,
           opts = [(''plot_type'', Atom 1)], chart = scatter\<rparr>, []) \<and>
   VisdomPlotLogger_init ''line'' [[''loss'']] None None None [(''plot_type'', Atom (1::nat))] [] =
     (Inr \<lparr>field_paths = [[''loss'']], interval = None, win = None, env = None,
           opts = [(''plot_type'', Atom 1)], chart = line\<rparr>, []) \<and>
   VisdomPlotLogger_init ''bogus'' [[''loss'']] None None None [(''plot_type'', Atom (1::nat))] [] =
     (Inl (UnsupportedPlotKind ''bogus''), []) \<and>
   ''plot_type'' \<notin> fst ` set [(''title'', Atom (1::nat))] \<and>
   VisdomPlotLogger_init ''line'' [[''loss'']] None None None [(''title'', Atom (1::nat))] [] =
     (Inr \<lparr>field_paths = [[''loss'']], interval = None, win = None, env = None,
           opts = [(''title'', Atom 1)], chart = scatter\<rparr>, [])"
  using
    plot_kind_selection [where os = "[(''plot_type'', Atom (1::nat))]" and ptype = "''scatter''"
      and flds = "[[''loss'']]" and ivl = None and w = None and e = None and tr = "[]"]
    plot_kind_selection [where os = "[(''plot_type'', Atom (1::nat))]" and ptype = "''line''"
      and flds = "[[''loss'']]" and ivl = None and w = None and e = None and tr = "[]"]
    plot_kind_selection [where os = "[(''plot_type'', Atom (1::nat))]" and ptype = "''bogus''"
      and flds = "[[''loss'']]" and ivl = None and w = None and e = None and tr = "[]"]
    plot_kind_selection [where os = "[(''title'', Atom (1::nat))]" and ptype = "''line''"
      and flds = "[[''loss'']]" and ivl = None and w = None and e = None and tr = "[]"]
  by simp

text \<open>
  Claim C9. Without the key \<^verbatim>\<open>plot_type\<close> among the options the constructor succeeds for
  every kind, \<^verbatim>\<open>bogus\<close> included: the kind is not validated and \<open>UnsupportedPlotKind\<close> is
  not raised.
\<close>

theorem plot_init_without_key_succeeds:
  "''plot_type'' \<notin> fst ` set os \<Longrightarrow>
   (\<exists>self. VisdomPlotLogger_init ptype flds ivl w e os tr = (Inr self, tr)) \<and>
   fst (VisdomPlotLogger_init ptype flds ivl w e os tr) \<noteq> Inl (UnsupportedPlotKind ptype)"
  by (simp add: VisdomPlotLogger_init_def)

theorem plot_init_without_key_succeeds_witness:
  "''plot_type'' \<notin> fst ` set [(''title'', Atom (1::nat))] \<and>
   (\<exists>self. VisdomPlotLogger_init ''bogus'' [[''loss'']] None None None [(''title'', Atom (1::nat))] []
      = (Inr self, [])) \<and>
   fst (VisdomPlotLogger_init ''bogus'' [[''loss'']] None None None [(''title'', Atom (1::nat))] [])
     \<noteq> Inl (UnsupportedPlotKind ''bogus'')"
proof -
  have h: "''plot_type'' \<notin> fst ` set [(''title'', Atom (1::nat))]" by simp
  from h plot_init_without_key_succeeds [OF h, where ptype = "''bogus''" and flds = "[[''loss'']]"
      and ivl = None and w = None and e = None and tr = "[]"]
  show ?thesis by blast
qed

text \<open>
  Claim C3. With a window stored, \<^verbatim>\<open>log\<close> with a number of values other than two fails
  with \<open>InvalidArgument\<close>; the logger and the calls issued are as before, so no call went
  to the client.
\<close>

theorem plot_log_arity:
  "win self = Some w \<Longrightarrow> length args \<noteq> 2 \<Longrightarrow>
   VisdomPlotLogger_log srv args (self, tr) = (Inl InvalidArgument, self, tr)"
  by (auto simp: VisdomPlotLogger_log_def split: list.splits)

theorem plot_log_arity_witness:
  "win (plot_ex\<lparr>win := Some ''window_1''\<rparr>) = Some ''window_1'' \<and>
   length [Atom (128::nat), Atom 40, Atom 7] \<noteq> 2 \<and>
   VisdomPlotLogger_log client_ex [Atom 128, Atom 40, Atom 7] (plot_ex\<lparr>win := Some ''window_1''\<rparr>, []) =
     (Inl InvalidArgument, plot_ex\<lparr>win := Some ''window_1''\<rparr>, [])"
proof -
  have h1: "win (plot_ex\<lparr>win := Some ''window_1''\<rparr>) = Some ''window_1''" by simp
  have h2: "length [Atom (128::nat), Atom 40, Atom 7] \<noteq> 2" by simp
  from h1 h2 plot_log_arity [OF h1 h2, where srv = client_ex and tr = "[]"] show ?thesis by simp
qed

text \<open>
  Claim C10. With a window stored, \<^verbatim>\<open>log\<close> with two values issues the one
  \<^verbatim>\<open>updateTrace\<close> call and leaves the logger as it was: window, environment, options, fields
  and chart operation are unchanged.
\<close>

theorem plot_log_update_frame:
  "win self = Some w \<Longrightarrow> length args = 2 \<Longrightarrow>
   VisdomPlotLogger_log srv args (self, tr) =
     (Inr (), self, tr @ [UpdateTrace [args ! 0] [args ! 1] (Some w) (env self) (opts self)]) \<and>
   win (fst (snd (VisdomPlotLogger_log srv args (self, tr)))) = win self \<and>
   env (fst (snd (VisdomPlotLogger_log srv args (self, tr)))) = env self \<and>
   opts (fst (snd (VisdomPlotLogger_log srv args (self, tr)))) = opts self \<and>
   field_paths (fst (snd (VisdomPlotLogger_log srv args (self, tr)))) = field_paths self \<and>
   chart (fst (snd (VisdomPlotLogger_log srv args (self, tr)))) = chart self"
  by (auto simp: VisdomPlotLogger_log_def split: list.splits)

theorem plot_log_update_frame_witness:
  "win (plot_ex\<lparr>win := Some ''window_1''\<rparr>) = Some ''window_1'' \<and>
   length [Atom (128::nat), Atom 40] = 2 \<and>
   VisdomPlotLogger_log client_ex [Atom 128, Atom 40] (plot_ex\<lparr>win := Some ''window_1''\<rparr>, []) =
     (Inr (), plot_ex\<lparr>win := Some ''window_1''\<rparr>,
      [UpdateTrace [Atom 128] [Atom 40] (Some ''window_1'') None []])"
proof -
  have h1: "win (plot_ex\<lparr>win := Some ''window_1''\<rparr>) = Some ''window_1''" by simp
  have h2: "length [Atom (128::nat), Atom 40] = 2" by simp
  from h1 h2 plot_log_update_frame [OF h1 h2, where srv = client_ex and tr = "[]"] show ?thesis by simp
qed

lemma plot_log_wrong_arity:
  "win self = Some w \<Longrightarrow> length args \<noteq> 2 \<Longrightarrow>
   VisdomPlotLogger_log srv args (self, tr) = (Inl InvalidArgument, self, tr)"
  by (auto simp: VisdomPlotLogger_log_def split: list.splits)

lemma plot_log_two:
  "win self = Some w \<Longrightarrow> length args = 2 \<Longrightarrow>
   VisdomPlotLogger_log srv args (self, tr) =
     (Inr (), self, tr @ [UpdateTrace [args ! 0] [args ! 1] (Some w) (env self) (opts self)])"
  by (auto simp: VisdomPlotLogger_log_def split: list.splits)

lemma plot_log_create:
  "win self = None \<Longrightarrow> chart self = scatter \<Longrightarrow>
   srv tr (Chart scatter [args] None (env self) (opts self)) = Returns w os \<Longrightarrow>
   VisdomPlotLogger_log srv args (self, tr) =
     (Inr (), self\<lparr>win := Some w, opts := os\<rparr>,
      tr @ [Chart scatter [args] None (env self) (opts self)])"
  by (simp add: VisdomPlotLogger_log_def Let_def)

lemma log_seq_stored:
  "win self = Some w \<Longrightarrow>
   log_seq srv argss (self, tr) =
     (map (\<lambda>a. if length a = 2 then Inr () else Inl InvalidArgument) argss,
      self,
      tr @ map (\<lambda>a. UpdateTrace [a ! 0] [a ! 1] (Some w) (env self) (opts self))
             (filter (\<lambda>a. length a = 2) argss))"
proof (induction argss arbitrary: tr)
  case Nil
  show ?case by simp
next
  case (Cons a argss)
  show ?case
  proof (cases "length a = 2")
    case True
    with Cons.prems have
      "VisdomPlotLogger_log srv a (self, tr) =
         (Inr (), self, tr @ [UpdateTrace [a ! 0] [a ! 1] (Some w) (env self) (opts self)])"
      by (rule plot_log_two)
    with True Cons.IH [OF Cons.prems] show ?thesis by simp
  next
    case False
    with Cons.prems have "VisdomPlotLogger_log srv a (self, tr) = (Inl InvalidArgument, self, tr)"
      by (rule plot_log_wrong_arity)
    with False Cons.IH [OF Cons.prems] show ?thesis by simp
  qed
qed

text \<open>
  Claim C2, amended. For a logger whose chart operation is scatter: the first \<^verbatim>\<open>log\<close>,
  made while no window is stored, calls the client's \<^verbatim>\<open>scatter\<close> with all the values as one
  point, and when that call returns, the window it returns is stored (and \<^verbatim>\<open>self.opts\<close> is
  the dictionary as the client left it). Of the \<^verbatim>\<open>log\<close> calls that follow on the same
  logger, in any number and with any arguments, each one with exactly two values returns
  and issues one \<^verbatim>\<open>updateTrace\<close> call with that stored window, each one with another number
  of values fails with \<open>InvalidArgument\<close> and issues nothing, the stored window never
  changes and no second create call is issued. Nothing is said here of a logger whose chart
  operation is line.
\<close>

theorem plot_log_create_then_update:
  "win self = None \<Longrightarrow> chart self = scatter \<Longrightarrow>
   srv tr (Chart scatter [args] None (env self) (opts self)) = Returns w os \<Longrightarrow>
   (let c = Chart scatter [args] None (env self) (opts self);
        updates = map (\<lambda>a. UpdateTrace [a ! 0] [a ! 1] (Some w) (env self) os)
                    (filter (\<lambda>a. length a = 2) argss)
    in VisdomPlotLogger_log srv args (self, tr) =
         (Inr (), self\<lparr>win := Some w, opts := os\<rparr>, tr @ [c]) \<and>
       log_seq srv argss (snd (VisdomPlotLogger_log srv args (self, tr))) =
         (map (\<lambda>a. if length a = 2 then Inr () else Inl InvalidArgument) argss,
          self\<lparr>win := Some w, opts := os\<rparr>, tr @ [c] @ updates) \<and>
       filter is_create
           (snd (snd (log_seq srv argss (snd (VisdomPlotLogger_log srv args (self, tr)))))) =
         filter is_create tr @ [c])"
proof -
  assume none: "win self = None" and sc: "chart self = scatter"
    and ret: "srv tr (Chart scatter [args] None (env self) (opts self)) = Returns w os"
  define c where "c = Chart scatter [args] None (env self) (opts self)"
  define updates where
    "updates = map (\<lambda>a. UpdateTrace [a ! 0] [a ! 1] (Some w) (env self) os)
                 (filter (\<lambda>a. length a = 2) argss)"
  have first: "VisdomPlotLogger_log srv args (self, tr) =
      (Inr (), self\<lparr>win := Some w, opts := os\<rparr>, tr @ [c])"
    using none sc ret plot_log_create [of self srv tr args w os] by (simp add: c_def)
  have "win (self\<lparr>win := Some w, opts := os\<rparr>) = Some w" by simp
  from log_seq_stored [OF this, of srv argss "tr @ [c]"]
  have rest: "log_seq srv argss (self\<lparr>win := Some w, opts := os\<rparr>, tr @ [c]) =
      (map (\<lambda>a. if length a = 2 then Inr () else Inl InvalidArgument) argss,
       self\<lparr>win := Some w, opts := os\<rparr>, tr @ [c] @ updates)"
    by (simp add: updates_def)
  have "filter is_create updates = []"
    by (simp add: updates_def filter_empty_conv)
  then have "filter is_create (tr @ [c] @ updates) = filter is_create tr @ [c]"
    by (simp add: c_def)
  with first rest show ?thesis
    unfolding Let_def c_def [symmetric] updates_def [symmetric] by simp
qed

theorem plot_log_create_then_update_witness:
  "win plot_ex = None \<and> chart plot_ex = scatter \<and>
   client_ex [] (Chart scatter [[Atom 128, Atom 40]] None (env plot_ex) (opts plot_ex)) =
     Returns ''window_1'' [(''markersize'', Atom 10)] \<and>
   VisdomPlotLogger_log client_ex [Atom 128, Atom 40] (plot_ex, []) =
     (Inr (), plot_ex\<lparr>win := Some ''window_1'', opts := [(''markersize'', Atom 10)]\<rparr>,
      [Chart scatter [[Atom 128, Atom 40]] None None []]) \<and>
   log_seq client_ex [[Atom 256, Atom 80], [Atom 7], [Atom 384, Atom 99]]
       (snd (VisdomPlotLogger_log client_ex [Atom 128, Atom 40] (plot_ex, []))) =
     ([Inr (), Inl InvalidArgument, Inr ()],
      plot_ex\<lparr>win := Some ''window_1'', opts := [(''markersize'', Atom 10)]\<rparr>,
      [Chart scatter [[Atom 128, Atom 40]] None None [],
       UpdateTrace [Atom 256] [Atom 80] (Some ''window_1'') None [(''markersize'', Atom 10)],
       UpdateTrace [Atom 384] [Atom 99] (Some ''window_1'') None [(''markersize'', Atom 10)]])"
proof -
  have h1: "win plot_ex = None" by simp
  have h2: "chart plot_ex = scatter" by simp
  have h3: "client_ex [] (Chart scatter [[Atom 128, Atom 40]] None (env plot_ex) (opts plot_ex)) =
     Returns ''window_1'' [(''markersize'', Atom 10)]"
    by simp
  note t0 = plot_log_create_then_update [where self = plot_ex and srv = client_ex and tr = "[]"
      and args = "[Atom 128, Atom 40]" and w = "''window_1''"
      and os = "[(''markersize'', Atom 10)]"
      and argss = "[[Atom 256, Atom 80], [Atom 7], [Atom 384, Atom 99]]"]
  note t = t0 [OF h1 h2 h3, unfolded Let_def]
  from t [THEN conjunct1]
  have first: "VisdomPlotLogger_log client_ex [Atom 128, Atom 40] (plot_ex, []) =
     (Inr (), plot_ex\<lparr>win := Some ''window_1'', opts := [(''markersize'', Atom 10)]\<rparr>,
      [Chart scatter [[Atom 128, Atom 40]] None None []])"
    by simp
  from t [THEN conjunct2, THEN conjunct1]
  have rest: "log_seq client_ex [[Atom 256, Atom 80], [Atom 7], [Atom 384, Atom 99]]
       (snd (VisdomPlotLogger_log client_ex [Atom 128, Atom 40] (plot_ex, []))) =
     ([Inr (), Inl InvalidArgument, Inr ()],
      plot_ex\<lparr>win := Some ''window_1'', opts := [(''markersize'', Atom 10)]\<rparr>,
      [Chart scatter [[Atom 128, Atom 40]] None None [],
       UpdateTrace [Atom 256] [Atom 80] (Some ''window_1'') None [(''markersize'', Atom 10)],
       UpdateTrace [Atom 384] [Atom 99] (Some ''window_1'') None [(''markersize'', Atom 10)]])"
    by (simp del: log_seq.simps)
  from h1 h2 h3 first rest show ?thesis by (intro conjI)
qed

text \<open>
  Claim C2 as stated fails: after the first \<^verbatim>\<open>log\<close> has stored the window, a second
  \<^verbatim>\<open>log\<close> with one value raises \<open>InvalidArgument\<close> and issues no \<^verbatim>\<open>updateTrace\<close> call; the
  calls issued are those of the first \<^verbatim>\<open>log\<close> alone.
\<close>

theorem plot_log_second_call_counterexample:
  "VisdomPlotLogger_log client_ex [Atom 7]
       (snd (VisdomPlotLogger_log client_ex [Atom 128, Atom 40] (plot_ex, []))) =
     (Inl InvalidArgument,
      plot_ex\<lparr>win := Some ''window_1'', opts := [(''markersize'', Atom 10)]\<rparr>,
      [Chart scatter [[Atom 128, Atom 40]] None None []]) \<and>
   snd (snd (VisdomPlotLogger_log client_ex [Atom 7]
       (snd (VisdomPlotLogger_log client_ex [Atom 128, Atom 40] (plot_ex, []))))) =
     snd (snd (VisdomPlotLogger_log client_ex [Atom 128, Atom 40] (plot_ex, [])))"
  by (simp add: VisdomPlotLogger_log_def Let_def)

text \<open>
  The first \<^verbatim>\<open>log\<close> of a line logger: the call of lines 162-166 leaves out the \<^verbatim>\<open>Y\<close> that
  the client's \<^verbatim>\<open>line\<close> requires, so it raises \<^verbatim>\<open>TypeError\<close>, nothing is carried out and no
  window is stored; the next \<^verbatim>\<open>log\<close> finds the logger as it was.
\<close>

lemma plot_log_line_create_raises:
  "win self = None \<Longrightarrow> chart self = line \<Longrightarrow>
   VisdomPlotLogger_log srv args (self, tr) = (Inl TypeError, self, tr)"
  by (simp add: VisdomPlotLogger_log_def)

section \<open>The text logger\<close>

text \<open>
  Claim C6. An update type other than \<^verbatim>\<open>REPLACE\<close> and \<^verbatim>\<open>APPEND\<close> makes the constructor
  fail with \<open>InvalidArgument\<close>, with no call issued; with one of the two the constructor
  succeeds, with an empty buffer and that update type stored.
\<close>

theorem text_init_update_type:
  "(utype \<noteq> ''REPLACE'' \<and> utype \<noteq> ''APPEND'' \<longrightarrow>
      VisdomTextLogger_init flds ivl w e os utype tr = (Inl InvalidArgument, tr)) \<and>
   (utype = ''REPLACE'' \<or> utype = ''APPEND'' \<longrightarrow>
      VisdomTextLogger_init flds ivl w e os utype tr =
        (Inr \<lparr>field_paths = flds, interval = ivl, win = w, env = e, opts = os,
              text' = [], update_type = utype\<rparr>, tr))"
  by (auto simp: VisdomTextLogger_init_def valid_update_types_def)

theorem text_init_update_type_witness:
  "''BOGUS'' \<noteq> ''REPLACE'' \<and> ''BOGUS'' \<noteq> ''APPEND'' \<and>
   VisdomTextLogger_init [[''progress'']] None None None [] ''BOGUS'' ([] :: nat call list) =
     (Inl InvalidArgument, []) \<and>
   VisdomTextLogger_init [[''progress'']] None None None [] ''APPEND'' ([] :: nat call list) =
     (Inr \<lparr>field_paths = [[''progress'']], interval = None, win = None, env = None, opts = [],
           text' = [], update_type = ''APPEND''\<rparr>, [])"
  using
    text_init_update_type [where utype = "''BOGUS''" and flds = "[[''progress'']]" and ivl = None
      and w = None and e = None and os = "[]" and tr = "[] :: nat call list"]
    text_init_update_type [where utype = "''APPEND''" and flds = "[[''progress'']]" and ivl = None
      and w = None and e = None and os = "[]" and tr = "[] :: nat call list"]
  by simp

lemma text_log_buffer:
  "text' (fst (snd (VisdomTextLogger_log srv msg (self, tr)))) =
     (if update_type self = ''APPEND'' \<and> text' self \<noteq> [] then text' self @ ''<br>'' @ msg
      else msg)"
  by (simp add: VisdomTextLogger_log_def viz_prototype_def Let_def)

lemma text_log_update_type:
  "update_type (fst (snd (VisdomTextLogger_log srv msg (self, tr)))) = update_type self"
  by (simp add: VisdomTextLogger_log_def viz_prototype_def Let_def)

text \<open>
  Claim C4. In \<^verbatim>\<open>REPLACE\<close> mode \<^verbatim>\<open>log("a")\<close> then \<^verbatim>\<open>log("b")\<close> leaves the buffer \<^verbatim>\<open>b\<close>,
  whatever it held; in \<^verbatim>\<open>APPEND\<close> mode, from the empty buffer of a new logger, the same two
  calls leave \<^verbatim>\<open>a<br>b\<close>. In general one \<^verbatim>\<open>log\<close> appends the message after \<^verbatim>\<open><br>\<close> in
  \<^verbatim>\<open>APPEND\<close> mode when the buffer is not empty, and replaces the buffer otherwise.
\<close>

theorem text_log_replace_append:
  "(update_type self = ''REPLACE'' \<longrightarrow>
      text' (fst (snd (VisdomTextLogger_log srv ''b''
               (snd (VisdomTextLogger_log srv ''a'' (self, tr)))))) = ''b'') \<and>
   (update_type self = ''APPEND'' \<and> text' self = [] \<longrightarrow>
      text' (fst (snd (VisdomTextLogger_log srv ''b''
               (snd (VisdomTextLogger_log srv ''a'' (self, tr)))))) = ''a<br>b'') \<and>
   text' (fst (snd (VisdomTextLogger_log srv msg (self, tr)))) =
     (if update_type self = ''APPEND'' \<and> text' self \<noteq> [] then text' self @ ''<br>'' @ msg
      else msg)"
proof -
  obtain self1 tr1 where s1: "snd (VisdomTextLogger_log srv ''a'' (self, tr)) = (self1, tr1)"
    by (cases "snd (VisdomTextLogger_log srv ''a'' (self, tr))")
  have t1: "text' self1 =
      (if update_type self = ''APPEND'' \<and> text' self \<noteq> [] then text' self @ ''<br>'' @ ''a''
       else ''a'')"
    using text_log_buffer [of srv "''a''" self tr] s1 by simp
  have u1: "update_type self1 = update_type self"
    using text_log_update_type [of srv "''a''" self tr] s1 by simp
  have t2: "text' (fst (snd (VisdomTextLogger_log srv ''b'' (self1, tr1)))) =
      (if update_type self1 = ''APPEND'' \<and> text' self1 \<noteq> [] then text' self1 @ ''<br>'' @ ''b''
       else ''b'')"
    by (rule text_log_buffer)
  show ?thesis
    using t1 u1 t2 s1 text_log_buffer [of srv msg self tr] by simp
qed

theorem text_log_replace_append_witness:
  "update_type (text_ex ''REPLACE'') = ''REPLACE'' \<and>
   text' (fst (snd (VisdomTextLogger_log srv_ex ''b''
            (snd (VisdomTextLogger_log srv_ex ''a'' (text_ex ''REPLACE'', [])))))) = ''b'' \<and>
   update_type (text_ex ''APPEND'') = ''APPEND'' \<and> text' (text_ex ''APPEND'') = [] \<and>
   text' (fst (snd (VisdomTextLogger_log srv_ex ''b''
            (snd (VisdomTextLogger_log srv_ex ''a'' (text_ex ''APPEND'', [])))))) = ''a<br>b''"
  using text_log_replace_append [where self = "text_ex ''REPLACE''" and srv = srv_ex and tr = "[]"
      and msg = "''x''"]
    text_log_replace_append [where self = "text_ex ''APPEND''" and srv = srv_ex and tr = "[]"
      and msg = "''x''"]
  by simp

section \<open>The end-of-epoch hook\<close>

lemma epoch_after_return:
  "super_epoch epoch_idx s = (Inr u, s1) \<Longrightarrow>
   BaseVisdomLogger_epoch super_epoch epoch_idx s = (Inl TypeError, s1)"
  by (simp add: BaseVisdomLogger_epoch_def client_save_def)

lemma epoch_after_raise:
  "super_epoch epoch_idx s = (Inl e, s1) \<Longrightarrow>
   BaseVisdomLogger_epoch super_epoch epoch_idx s = (Inl e, s1)"
  by (simp add: BaseVisdomLogger_epoch_def)

lemma epoch_same_calls:
  "snd (snd (BaseVisdomLogger_epoch super_epoch epoch_idx s)) = snd (snd (super_epoch epoch_idx s))"
  by (simp add: BaseVisdomLogger_epoch_def client_save_def split: prod.splits sum.splits)

text \<open>
  Claim C7 says that each invocation of the end-of-epoch hook triggers exactly one save
  call, besides the calls of the field logging. The code does not do so. Line 63 calls
  \<^verbatim>\<open>self.viz.save()\<close> without the environments that the client's \<^verbatim>\<open>save\<close> requires and that
  the call of line 82 passes: whenever the field logging returns, the hook raises
  \<^verbatim>\<open>TypeError\<close>; when the field logging raises, its exception leaves the hook; in both cases
  the calls carried out are those of the field logging and no save call is among the
  hook's own.
\<close>

theorem epoch_save_refused:
  "(super_epoch epoch_idx s = (Inr u, s1) \<longrightarrow>
      BaseVisdomLogger_epoch super_epoch epoch_idx s = (Inl TypeError, s1)) \<and>
   (super_epoch epoch_idx s = (Inl e, s1) \<longrightarrow>
      BaseVisdomLogger_epoch super_epoch epoch_idx s = (Inl e, s1)) \<and>
   snd (snd (BaseVisdomLogger_epoch super_epoch epoch_idx s)) =
     snd (snd (super_epoch epoch_idx s))"
proof (intro conjI impI)
  assume "super_epoch epoch_idx s = (Inr u, s1)"
  then show "BaseVisdomLogger_epoch super_epoch epoch_idx s = (Inl TypeError, s1)"
    by (rule epoch_after_return [of super_epoch epoch_idx s u s1])
next
  assume "super_epoch epoch_idx s = (Inl e, s1)"
  then show "BaseVisdomLogger_epoch super_epoch epoch_idx s = (Inl e, s1)"
    by (rule epoch_after_raise [of super_epoch epoch_idx s e s1])
next
  show "snd (snd (BaseVisdomLogger_epoch super_epoch epoch_idx s)) =
     snd (snd (super_epoch epoch_idx s))"
    by (rule epoch_same_calls)
qed

theorem epoch_save_refused_witness:
  "Logger_epoch sub_ex (VisdomPlotLogger_log client_ex) stats_ex 3
       (plot_ex\<lparr>win := Some ''window_1''\<rparr>, []) =
     (Inr (), plot_ex\<lparr>win := Some ''window_1''\<rparr>,
      [UpdateTrace [Atom 128] [Atom 40] (Some ''window_1'') None []]) \<and>
   BaseVisdomLogger_epoch (Logger_epoch sub_ex (VisdomPlotLogger_log client_ex) stats_ex) 3
       (plot_ex\<lparr>win := Some ''window_1''\<rparr>, []) =
     (Inl TypeError, plot_ex\<lparr>win := Some ''window_1''\<rparr>,
      [UpdateTrace [Atom 128] [Atom 40] (Some ''window_1'') None []]) \<and>
   length (filter is_save (snd (snd
     (BaseVisdomLogger_epoch (Logger_epoch sub_ex (VisdomPlotLogger_log client_ex) stats_ex) 3
        (plot_ex\<lparr>win := Some ''window_1''\<rparr>, []))))) = 0 \<and>
   Logger_epoch sub_ex (VisdomPlotLogger_log client_ex) (Dict []) 3 (plot_ex, []) =
     (Inl (FieldNotFound ''progress''), plot_ex, []) \<and>
   BaseVisdomLogger_epoch (Logger_epoch sub_ex (VisdomPlotLogger_log client_ex) (Dict [])) 3
       (plot_ex, []) =
     (Inl (FieldNotFound ''progress''), plot_ex, [])"
proof -
  let ?lg = "plot_ex\<lparr>win := Some ''window_1''\<rparr>"
  let ?tr = "[UpdateTrace [Atom 128] [Atom 40] (Some ''window_1'') None []] :: nat call list"
  have ok: "Logger_epoch sub_ex (VisdomPlotLogger_log client_ex) stats_ex 3 (?lg, []) =
     (Inr (), ?lg, ?tr)"
    by (simp add: Logger_epoch_def log_all_def VisdomPlotLogger_log_def)
  have bad: "Logger_epoch sub_ex (VisdomPlotLogger_log client_ex) (Dict []) 3 (plot_ex, []) =
     (Inl (FieldNotFound ''progress''), plot_ex, [])"
    by (simp add: Logger_epoch_def log_all_def)
  note a = epoch_save_refused [where
      super_epoch = "Logger_epoch sub_ex (VisdomPlotLogger_log client_ex) stats_ex"
      and epoch_idx = 3 and s = "(?lg, [])" and u = "()" and ?s1.0 = "(?lg, ?tr)"
      and e = "FieldNotFound ''progress''"]
  note b = epoch_save_refused [where
      super_epoch = "Logger_epoch sub_ex (VisdomPlotLogger_log client_ex) (Dict [])"
      and epoch_idx = 3 and s = "(plot_ex, [])" and u = "()" and ?s1.0 = "(plot_ex, [])"
      and e = "FieldNotFound ''progress''"]
  from a ok have r1:
    "BaseVisdomLogger_epoch (Logger_epoch sub_ex (VisdomPlotLogger_log client_ex) stats_ex) 3
       (?lg, []) = (Inl TypeError, ?lg, ?tr)"
    by simp
  then have r2: "length (filter is_save (snd (snd
     (BaseVisdomLogger_epoch (Logger_epoch sub_ex (VisdomPlotLogger_log client_ex) stats_ex) 3
        (?lg, []))))) = 0"
    by simp
  from b bad have r3:
    "BaseVisdomLogger_epoch (Logger_epoch sub_ex (VisdomPlotLogger_log client_ex) (Dict [])) 3
       (plot_ex, []) = (Inl (FieldNotFound ''progress''), plot_ex, [])"
    by simp
  from ok r1 r2 bad r3 show ?thesis by (intro conjI)
qed

section \<open>The saver\<close>

text \<open>
  Claim C8. A saver constructed with the interval \<^verbatim>\<open>[(1, 'epoch')]\<close> and any environments
  has its \<^verbatim>\<open>save\<close> bound to \<^verbatim>\<open>epoch\<close>, and each invocation of that hook, whatever its
  arguments, issues exactly one save call, which carries the whole configured value of
  \<^verbatim>\<open>envs\<close>, and leaves the saver as it was. The constructor of the superclass, not among
  the sources, is taken to leave no instance attribute named \<^verbatim>\<open>save\<close>.
\<close>

theorem saver_epoch_one_save:
  "map_of plugin ''save'' = None \<Longrightarrow>
   (let self = (''epoch'', Method_save) # (''viz'', Viz) # (''envs'', Envs envs) # plugin
    in VisdomSaver_init plugin envs [(1, ''epoch'')] tr0 = (Inr self, tr0) \<and>
       call_hook ''epoch'' args (self, tr) = (Inr (), self, tr @ [Save (Some (Envs envs))]) \<and>
       length (filter is_save (snd (snd (call_hook ''epoch'' args (self, tr))))) =
         Suc (length (filter is_save tr)))"
  by (simp add: VisdomSaver_init_def setattr_def getattr_def call_hook_def VisdomSaver_save_def
      Let_def)

theorem saver_epoch_one_save_witness:
  "map_of [(''trigger_interval'', Interval [(1, ''epoch'')])] ''save'' = None \<and>
   VisdomSaver_init [(''trigger_interval'', Interval [(1, ''epoch'')])] (Some [''main'', ''aux''])
       [(1, ''epoch'')] ([] :: nat call list) =
     (Inr [(''epoch'', Method_save), (''viz'', Viz), (''envs'', Envs (Some [''main'', ''aux''])),
           (''trigger_interval'', Interval [(1, ''epoch'')])], []) \<and>
   call_hook ''epoch'' [Obj 3]
       ([(''epoch'', Method_save), (''viz'', Viz), (''envs'', Envs (Some [''main'', ''aux''])),
         (''trigger_interval'', Interval [(1, ''epoch'')])], [] :: nat call list) =
     (Inr (),
      [(''epoch'', Method_save), (''viz'', Viz), (''envs'', Envs (Some [''main'', ''aux''])),
       (''trigger_interval'', Interval [(1, ''epoch'')])],
      [Save (Some (Envs (Some [''main'', ''aux''])))])"
proof -
  have h: "map_of [(''trigger_interval'', Interval [(1, ''epoch'')])] ''save'' = None" by simp
  from h saver_epoch_one_save [OF h, where envs = "Some [''main'', ''aux'']" and args = "[Obj 3]"
      and ?tr0.0 = "[] :: nat call list" and tr = "[] :: nat call list"]
  show ?thesis by (simp add: Let_def)
qed

end
